theory Spec2Isabelle
  imports Main
begin

section \<open>Strings as the program uses them\<close>

text \<open>
  A Python \<open>str\<close> is modelled as a \<open>string\<close>: a list of code points, each a \<open>char\<close>
  (code points 0 to 255). \<open>bytes\<close> are lists of \<open>char\<close> as well.
\<close>

type_synonym bytes = "char list"

text \<open>\<open>str(n)\<close> for a non-negative integer, as the f-string \<open>{os.geteuid()}\<close> renders it.\<close>

definition digit_char :: "nat \<Rightarrow> char" where
  "digit_char d = ''0123456789'' ! d"

fun str_nat :: "nat \<Rightarrow> string" where
  "str_nat n = (if n < 10 then [digit_char n] else str_nat (n div 10) @ [digit_char (n mod 10)])"

declare str_nat.simps [simp del]

text \<open>
  \<open>posixpath.join(a, b)\<close>: an absolute \<open>b\<close> replaces \<open>a\<close>; otherwise \<open>b\<close> is appended,
  after a separator unless \<open>a\<close> is empty or already ends with one.
\<close>

definition path_join :: "string \<Rightarrow> string \<Rightarrow> string" where
  "path_join a b =
     (if b \<noteq> [] \<and> hd b = CHR ''/'' then b
      else if a = [] \<or> last a = CHR ''/'' then a @ b
      else a @ ''/'' @ b)"

text \<open>
  \<open>s.rpartition(sep)[0]\<close> for a one-character separator: the part before the last
  occurrence of \<open>sep\<close>, and the empty string when \<open>sep\<close> does not occur.
\<close>

fun rpartition_head :: "char \<Rightarrow> string \<Rightarrow> string" where
  "rpartition_head sep [] = []"
| "rpartition_head sep (c # cs) =
     (if sep \<in> set cs then c # rpartition_head sep cs else [])"

text \<open>
  \<open>s.partition(sep)[::2]\<close> for a one-character separator: the parts before and after the
  first occurrence of \<open>sep\<close>; the whole string and the empty string when there is none.
\<close>

definition partition2 :: "char \<Rightarrow> string \<Rightarrow> string \<times> string" where
  "partition2 sep s = (takeWhile (\<lambda>c. c \<noteq> sep) s, drop 1 (dropWhile (\<lambda>c. c \<noteq> sep) s))"

text \<open>
  \<open>str.splitlines()\<close>: lines end at \<open>\n\<close>, \<open>\r\<close>, \<open>\r\n\<close>, \<open>\v\<close>, \<open>\f\<close>, \<open>\x1c\<close>,
  \<open>\x1d\<close>, \<open>\x1e\<close> and \<open>\x85\<close> (the line boundaries among the code points below 256);
  the boundaries are dropped and a final boundary opens no empty last line.
\<close>

definition is_linebreak :: "char \<Rightarrow> bool" where
  "is_linebreak c \<longleftrightarrow>
     c \<in> {CHR 0x0A, CHR 0x0D, CHR 0x0B, CHR 0x0C, CHR 0x1C, CHR 0x1D, CHR 0x1E, CHR 0x85}"

fun splitlines_from :: "string \<Rightarrow> string \<Rightarrow> string list" where
  "splitlines_from cur [] = (if cur = [] then [] else [cur])"
| "splitlines_from cur [c] = (if is_linebreak c then [cur] else [cur @ [c]])"
| "splitlines_from cur (c # d # cs) =
     (if c = CHR 0x0D \<and> d = CHR 0x0A then cur # splitlines_from [] cs
      else if is_linebreak c then cur # splitlines_from [] (d # cs)
      else splitlines_from (cur @ [c]) (d # cs))"

definition splitlines :: "string \<Rightarrow> string list" where
  "splitlines s = splitlines_from [] s"

section \<open>Names and addresses of the single-instance socket\<close>

text \<open>
  What the module reads from its surroundings: \<open>appname\<close> and \<open>is_macos\<close> of
  \<open>kitty.constants\<close>, \<open>os.geteuid()\<close>, \<open>os.path.expanduser('~')\<close>,
  \<open>tempfile.gettempdir()\<close> and \<open>user_cache_dir()\<close>.
\<close>

record env =
  appname :: string
  euid :: nat
  home :: string
  tempdir :: string
  is_macos :: bool
  user_cache_dir :: string

text \<open>
  The name computed at the head of \<open>SingleInstance.__call__\<close>:
  \<^verbatim>\<open>
  name = f'{appname}-ipc-{os.geteuid()}'
  if group_id:
      name += f'-{group_id}'
  \<close>
  \<open>group_id\<close> is an \<open>Optional[str]\<close>; the test \<open>if group_id\<close> is false for \<open>None\<close>
  and for the empty string.
\<close>

definition ipc_name :: "env \<Rightarrow> string option \<Rightarrow> string" where
  "ipc_name e group_id =
     (let name = appname e @ ''-ipc-'' @ str_nat (euid e) in
      case group_id of
        None \<Rightarrow> name
      | Some g \<Rightarrow> if g \<noteq> [] then name @ ''-'' @ g else name)"

text \<open>\<open>addr = '\0' + name\<close>\<close>

definition abstract_address :: "string \<Rightarrow> string" where
  "abstract_address name = CHR 0x00 # name"

text \<open>
  \<open>unix_socket_directories\<close>: the candidate directories, in order, before the
  \<open>os.access\<close> test.
\<close>

definition socket_directory_candidates :: "env \<Rightarrow> string list" where
  "socket_directory_candidates e =
     (if is_macos e then [user_cache_dir e, ''/Library/Caches''] else [tempdir e, home e])"

text \<open>
  The path \<open>unix_socket_paths(name, ext)\<close> yields for the directory \<open>loc\<close>:
  \<^verbatim>\<open>
  filename = ('.' if loc == home else '') + name + ext
  yield os.path.join(loc, filename)
  \<close>
\<close>

definition unix_socket_path :: "env \<Rightarrow> string \<Rightarrow> string \<Rightarrow> string \<Rightarrow> string" where
  "unix_socket_path e name ext loc =
     path_join loc ((if loc = home e then ''.'' else '''') @ name @ ext)"

text \<open>\<open>socket_path = path.rpartition('.')[0] + '.sock'\<close>\<close>

definition socket_path_of :: "string \<Rightarrow> string" where
  "socket_path_of path = rpartition_head CHR ''.'' path @ ''.sock''"

section \<open>Reading the shell's environment\<close>

text \<open>
  The parsing loop of \<open>read_shell_environment\<close>, run on the decoded output:
  \<^verbatim>\<open>
  for line in draw.splitlines():
      k, v = line.partition('=')[::2]
      if k and v:
          ans[k] = v
  \<close>
\<close>

type_synonym dict = "string \<rightharpoonup> string"

definition parse_line :: "dict \<Rightarrow> string \<Rightarrow> dict" where
  "parse_line ans line =
     (case partition2 CHR ''='' line of
        (k, v) \<Rightarrow> if k \<noteq> [] \<and> v \<noteq> [] then ans(k \<mapsto> v) else ans)"

definition parse_environment :: "dict \<Rightarrow> string \<Rightarrow> dict" where
  "parse_environment ans draw = foldl parse_line ans (splitlines draw)"

text \<open>
  What one call meets outside the interpreter. The wait loop runs while
  \<open>monotonic() - start_time < 1.5\<close>; \<open>polls\<close> lists what the iterations inside that
  window observe, one pair per iteration: the result of \<open>p.wait(0.01)\<close> (\<open>None\<close> for
  \<open>TimeoutExpired\<close>) and what \<open>raw += stdout.read()\<close> appends (\<open>None\<close> when the read
  raises or returns \<open>None\<close>, which \<open>suppress(Exception)\<close> swallows). When the list is
  used up the deadline has passed. \<open>drain\<close> lists the results of the reads of the final
  loop (\<open>None\<close> for a read that raises); the pseudo-terminal holds finitely many bytes,
  so a used-up list reads as no more data.
\<close>

datatype launch = Started | FileNotFound | LaunchError nat

record world =
  shell_argv :: "string list"
  openpty_error :: "nat option"
  popen :: launch
  polls :: "(int option \<times> bytes option) list"
  drain :: "bytes option list"
  decode :: "bytes \<Rightarrow> string"

text \<open>
  \<^item> \<open>shell_argv\<close>: the list \<open>resolved_shell(opts)\<close> returns;
  \<^item> \<open>openpty_error\<close>: the errno \<open>openpty()\<close> raises, if it raises;
  \<^item> \<open>popen\<close>: whether \<open>subprocess.Popen\<close> starts the child, raises
    \<open>FileNotFoundError\<close>, or raises another \<open>OSError\<close>;
  \<^item> \<open>decode\<close>: \<open>raw.decode('utf-8', 'replace')\<close>.
\<close>

text \<open>
  \<^verbatim>\<open>
  if '-l' not in shell and '--login' not in shell:
      shell += ['-l']
  if '-i' not in shell and '--interactive' not in shell:
      shell += ['-i']
  \<close>
\<close>

definition login_interactive :: "string list \<Rightarrow> string list" where
  "login_interactive shell =
     (let shell1 = (if ''-l'' \<notin> set shell \<and> ''--login'' \<notin> set shell
                    then shell @ [''-l''] else shell)
      in if ''-i'' \<notin> set shell1 \<and> ''--interactive'' \<notin> set shell1
         then shell1 @ [''-i''] else shell1)"

text \<open>
  \<^verbatim>\<open>
  while monotonic() - start_time < 1.5:
      try:
          ret = p.wait(0.01)
      except subprocess.TimeoutExpired:
          ret = None
      with suppress(Exception):
          raw += stdout.read()
      if ret is not None:
          break
  \<close>
  The result is \<open>p.returncode\<close> after the loop and the bytes gathered.
\<close>

fun wait_loop :: "(int option \<times> bytes option) list \<Rightarrow> bytes \<Rightarrow> int option \<times> bytes" where
  "wait_loop [] raw = (None, raw)"
| "wait_loop ((ret, out) # rest) raw =
     (let raw1 = (case out of None \<Rightarrow> raw | Some x \<Rightarrow> raw @ x) in
      case ret of
        Some rc \<Rightarrow> (Some rc, raw1)
      | None \<Rightarrow> wait_loop rest raw1)"

text \<open>
  \<^verbatim>\<open>
  while True:
      try:
          x = stdout.read()
      except Exception:
          break
      if not x:
          break
      raw += x
  \<close>
\<close>

fun drain_loop :: "bytes option list \<Rightarrow> bytes \<Rightarrow> bytes" where
  "drain_loop [] raw = raw"
| "drain_loop (None # rest) raw = raw"
| "drain_loop (Some x # rest) raw = (if x = [] then raw else drain_loop rest (raw @ x))"

text \<open>
  The interpreter's state the function touches: the attribute
  \<open>read_shell_environment.ans\<close> (a reference to a dict object), the dict objects
  themselves, the messages given to \<open>log_error\<close>, the argument lists of the children
  started, and the number of \<open>p.kill()\<close> calls.
\<close>

type_synonym ref = nat

record interp =
  ans_attr :: "ref option"
  heap :: "ref \<rightharpoonup> dict"
  next_ref :: ref
  logged :: "string list"
  spawned :: "string list list"
  kills :: nat

datatype exn = OSError nat

definition log_error :: "string \<Rightarrow> interp \<Rightarrow> interp" where
  "log_error msg st = st\<lparr>logged := logged st @ [msg]\<rparr>"

definition read_shell_environment :: "world \<Rightarrow> interp \<Rightarrow> (exn + ref) \<times> interp" where
  "read_shell_environment w st =
     (case ans_attr st of
        Some ans \<Rightarrow> (Inr ans, st)
      | None \<Rightarrow>
          let ans = next_ref st;
              st1 = st\<lparr>heap := (heap st)(ans \<mapsto> Map.empty), next_ref := Suc ans,
                       ans_attr := Some ans\<rparr>
          in case openpty_error w of
               Some e \<Rightarrow> (Inl (OSError e), st1)
             | None \<Rightarrow>
                 let shell = login_interactive (shell_argv w) in
                 case popen w of
                   FileNotFound \<Rightarrow>
                     (Inr ans, log_error ''Could not find shell to read environment'' st1)
                 | LaunchError e \<Rightarrow> (Inl (OSError e), st1)
                 | Started \<Rightarrow>
                     let st2 = st1\<lparr>spawned := spawned st1 @ [shell @ [''-c'', ''env'']]\<rparr> in
                     case wait_loop (polls w) [] of
                       (None, raw) \<Rightarrow>
                         (Inr ans,
                          (log_error
                             ''Timed out waiting for shell to quit while reading shell environment''
                             st2)\<lparr>kills := Suc (kills st2)\<rparr>)
                     | (Some rc, raw) \<Rightarrow>
                         if rc = 0 then
                           let raw1 = drain_loop (drain w) raw;
                               draw = decode w raw1
                           in (Inr ans,
                               st2\<lparr>heap := (heap st2)(ans \<mapsto> parse_environment Map.empty draw)\<rparr>)
                         else
                           (Inr ans,
                            log_error ''Failed to run shell to read its environment'' st2))"

section \<open>Single-instance coordination\<close>

subsection \<open>Programs over operating-system actions\<close>

text \<open>
  The single-instance functions act on the world through sockets, files and the
  interpreter's own attributes. Each such action is a constructor; a program is the tree
  of the actions it performs, branching on what each one answers. An action answers
  with a number (a new socket or descriptor, the truth value of \<open>os.access\<close>, or nothing
  of interest) or raises \<open>OSError\<close> with an errno.
\<close>

datatype errno =
  EAGAIN | EACCES | EADDRINUSE | EEXIST | ENOENT | ECONNREFUSED | EBADF | ENXIO | Errno nat

type_synonym sock = nat
type_synonym fd = nat
type_synonym pid = nat

datatype action =
    Socket                              \<comment> \<open>\<open>socket.socket(family=socket.AF_UNIX)\<close>\<close>
  | Bind sock string                    \<comment> \<open>\<open>s.bind(addr)\<close>\<close>
  | Connect sock string                 \<comment> \<open>\<open>s.connect(addr)\<close>\<close>
  | Listen sock                         \<comment> \<open>\<open>s.listen()\<close>\<close>
  | Set_inheritable sock                \<comment> \<open>\<open>s.set_inheritable(False)\<close>\<close>
  | Open_lockfile string                \<comment> \<open>\<open>os.open(path, O_CREAT | O_WRONLY | O_TRUNC | O_CLOEXEC)\<close>\<close>
  | Lockf fd                            \<comment> \<open>\<open>fcntl.lockf(fd, LOCK_EX | LOCK_NB)\<close>\<close>
  | Unlink string                       \<comment> \<open>\<open>os.unlink(path)\<close>\<close>
  | Access string                       \<comment> \<open>\<open>os.access(loc, W_OK | R_OK | X_OK)\<close>\<close>
  | Set_socket_attr sock                \<comment> \<open>\<open>single_instance.socket = s\<close>\<close>
  | Atexit_register sock "string option" \<comment> \<open>\<open>atexit.register(remove_socket_file, s, path)\<close>\<close>

type_synonym reply = "errno + nat"

datatype 'a prog =
    Return 'a
  | Raise errno
  | Sys action "reply \<Rightarrow> 'a prog"

text \<open>A statement outside any \<open>try\<close>: an \<open>OSError\<close> leaves the function.\<close>

definition perform :: "action \<Rightarrow> (nat \<Rightarrow> 'a prog) \<Rightarrow> 'a prog" where
  "perform c k = Sys c (\<lambda>r. case r of Inl err \<Rightarrow> Raise err | Inr v \<Rightarrow> k v)"

text \<open>
  A statement inside \<open>try: ... except OSError as err: ...\<close>: the handler gets the
  errno, the code after the \<open>try\<close> statement gets the answer.
\<close>

definition attempt :: "action \<Rightarrow> (errno \<Rightarrow> 'a prog) \<Rightarrow> (nat \<Rightarrow> 'a prog) \<Rightarrow> 'a prog" where
  "attempt c handler k = Sys c (\<lambda>r. case r of Inl err \<Rightarrow> handler err | Inr v \<Rightarrow> k v)"

subsection \<open>\<open>single_instance_unix\<close>\<close>

text \<open>
  The end of the loop body, reached when the socket is bound:
  \<^verbatim>\<open>
  single_instance.socket = s  # prevent garbage collection from closing the socket
  atexit.register(remove_socket_file, s, socket_path)
  s.listen()
  s.set_inheritable(False)
  return True
  \<close>
\<close>

definition unix_server_listen :: "sock \<Rightarrow> string \<Rightarrow> bool prog" where
  "unix_server_listen s socket_path =
     perform (Set_socket_attr s) (\<lambda>_.
     perform (Atexit_register s (Some socket_path)) (\<lambda>_.
     perform (Listen s) (\<lambda>_.
     perform (Set_inheritable s) (\<lambda>_.
     Return True))))"

text \<open>
  The loop body for one lockfile \<open>path\<close>:
  \<^verbatim>\<open>
  socket_path = path.rpartition('.')[0] + '.sock'
  fd = os.open(path, os.O_CREAT | os.O_WRONLY | os.O_TRUNC | os.O_CLOEXEC)
  try:
      fcntl.lockf(fd, fcntl.LOCK_EX | fcntl.LOCK_NB)
  except OSError as err:
      if err.errno in (errno.EAGAIN, errno.EACCES):
          # Client
          s = socket.socket(family=socket.AF_UNIX)
          s.connect(socket_path)
          single_instance.socket = s
          return False
      raise
  s = socket.socket(family=socket.AF_UNIX)
  try:
      s.bind(socket_path)
  except OSError as err:
      if err.errno in (errno.EADDRINUSE, errno.EEXIST):
          os.unlink(socket_path)
          s.bind(socket_path)
      else:
          raise
  \<close>
  Every path through the body returns or raises, so the loop never reaches a second
  lockfile.
\<close>

definition single_instance_unix_body :: "string \<Rightarrow> bool prog" where
  "single_instance_unix_body path =
     (let socket_path = socket_path_of path in
      perform (Open_lockfile path) (\<lambda>fd.
      attempt (Lockf fd)
        (\<lambda>err.
           if err = EAGAIN \<or> err = EACCES then
             perform Socket (\<lambda>s.
             perform (Connect s socket_path) (\<lambda>_.
             perform (Set_socket_attr s) (\<lambda>_.
             Return False)))
           else Raise err)
        (\<lambda>_.
           perform Socket (\<lambda>s.
           attempt (Bind s socket_path)
             (\<lambda>err.
                if err = EADDRINUSE \<or> err = EEXIST then
                  perform (Unlink socket_path) (\<lambda>_.
                  perform (Bind s socket_path) (\<lambda>_.
                  unix_server_listen s socket_path))
                else Raise err)
             (\<lambda>_. unix_server_listen s socket_path)))))"

text \<open>
  \<open>for path in unix_socket_paths(name)\<close>: the generators test the candidate
  directories one by one with \<open>os.access\<close> and hand the first accessible one to the
  body; with none left the function returns \<open>False\<close>.
\<close>

primrec single_instance_unix_loop :: "env \<Rightarrow> string \<Rightarrow> string list \<Rightarrow> bool prog" where
  "single_instance_unix_loop e name [] = Return False"
| "single_instance_unix_loop e name (loc # rest) =
     perform (Access loc) (\<lambda>ok.
       if ok \<noteq> 0 then single_instance_unix_body (unix_socket_path e name ''.lock'' loc)
       else single_instance_unix_loop e name rest)"

definition single_instance_unix :: "env \<Rightarrow> string \<Rightarrow> bool prog" where
  "single_instance_unix e name = single_instance_unix_loop e name (socket_directory_candidates e)"

subsection \<open>\<open>SingleInstance.__call__\<close>\<close>

text \<open>
  \<^verbatim>\<open>
  s = socket.socket(family=socket.AF_UNIX)
  # First try with abstract UDS
  addr = '\0' + name
  try:
      s.bind(addr)
  except OSError as err:
      if err.errno == errno.ENOENT:
          return single_instance_unix(name)
      if err.errno == errno.EADDRINUSE:
          s.connect(addr)
          self.socket = s
          return False
      raise
  s.listen()
  self.socket = s  # prevent garbage collection from closing the socket
  s.set_inheritable(False)
  atexit.register(remove_socket_file, s)
  return True
  \<close>
  \<open>True\<close> is the Server role, \<open>False\<close> the Client role.
\<close>

definition single_instance :: "env \<Rightarrow> string option \<Rightarrow> bool prog" where
  "single_instance e group_id =
     (let name = ipc_name e group_id;
          addr = abstract_address name
      in perform Socket (\<lambda>s.
         attempt (Bind s addr)
           (\<lambda>err.
              if err = ENOENT then single_instance_unix e name
              else if err = EADDRINUSE then
                perform (Connect s addr) (\<lambda>_.
                perform (Set_socket_attr s) (\<lambda>_.
                Return False))
              else Raise err)
           (\<lambda>_.
              perform (Listen s) (\<lambda>_.
              perform (Set_socket_attr s) (\<lambda>_.
              perform (Set_inheritable s) (\<lambda>_.
              perform (Atexit_register s None) (\<lambda>_.
              Return True)))))))"

subsection \<open>Running a program against given answers\<close>

text \<open>
  \<open>exec p rs\<close> runs \<open>p\<close>, answering its actions with \<open>rs\<close> in order, and gives the actions
  performed and how the program ended. \<open>Blocked\<close>: the answers ran out first.
\<close>

datatype 'a outcome = Returned 'a | Raised errno | Blocked

primrec exec :: "'a prog \<Rightarrow> reply list \<Rightarrow> action list \<times> 'a outcome" where
  "exec (Return x) rs = ([], Returned x)"
| "exec (Raise err) rs = ([], Raised err)"
| "exec (Sys c k) rs =
     (case rs of
        [] \<Rightarrow> ([c], Blocked)
      | r # rs' \<Rightarrow> (case exec (k r) rs' of (cs, out) \<Rightarrow> (c # cs, out)))"

subsection \<open>The operating system\<close>

text \<open>
  The part of the system the actions read and change: which abstract addresses and
  which socket files are bound to which socket, the regular files and their content,
  who holds the advisory lock of a file, the descriptors each process has open, the
  sockets that listen, and, per process, the attribute \<open>single_instance.socket\<close> and the
  handlers given to \<open>atexit\<close>. \<open>abstract_ok\<close> says whether the kernel has the abstract
  namespace; \<open>busy_errno\<close> is the errno \<open>lockf\<close> raises when another process holds the
  lock (\<open>EAGAIN\<close> or \<open>EACCES\<close>, by platform); \<open>accessible\<close> is the answer of \<open>os.access\<close>.
\<close>

record system =
  abstract_ok :: bool
  busy_errno :: errno
  accessible :: "string \<Rightarrow> bool"
  abstract_bound :: "string \<rightharpoonup> sock"
  socket_files :: "string \<rightharpoonup> sock"
  files :: "string \<rightharpoonup> bytes"
  locks :: "string \<rightharpoonup> pid"
  fds :: "pid \<times> fd \<rightharpoonup> string"
  sock_owner :: "sock \<rightharpoonup> pid"
  listening :: "sock set"
  peer :: "sock \<rightharpoonup> sock"
  next_id :: nat
  socket_attr :: "pid \<rightharpoonup> sock"
  atexit :: "pid \<Rightarrow> (sock \<times> string option) list"

definition is_abstract :: "string \<Rightarrow> bool" where
  "is_abstract addr \<longleftrightarrow> addr \<noteq> [] \<and> hd addr = CHR 0x00"

text \<open>
  One action of process \<open>p\<close>, atomically.
  \<^item> \<open>bind\<close> to an abstract address fails with \<open>ENOENT\<close> without the abstract namespace and
    with \<open>EADDRINUSE\<close> when the address is bound; \<open>bind\<close> to a path fails with
    \<open>EADDRINUSE\<close> when anything exists at the path, and creates the socket file otherwise.
  \<^item> \<open>connect\<close> succeeds when a listening socket is bound to the address; it is refused
    when the socket bound there does not listen or the address is free, and fails with
    \<open>ENOENT\<close> when nothing exists at a path.
  \<^item> Opening the lockfile with \<open>O_CREAT | O_TRUNC\<close> leaves an empty file at the path.
  \<^item> \<open>lockf\<close> takes the lock unless another process holds it; nothing in these programs
    releases a lock or closes a descriptor.
\<close>

fun os_step :: "pid \<Rightarrow> action \<Rightarrow> system \<Rightarrow> reply \<times> system" where
  "os_step p Socket s =
     (Inr (next_id s),
      s\<lparr>sock_owner := (sock_owner s)(next_id s \<mapsto> p), next_id := Suc (next_id s)\<rparr>)"
| "os_step p (Bind t addr) s =
     (if is_abstract addr then
        (if \<not> abstract_ok s then (Inl ENOENT, s)
         else if abstract_bound s addr \<noteq> None then (Inl EADDRINUSE, s)
         else (Inr 0, s\<lparr>abstract_bound := (abstract_bound s)(addr \<mapsto> t)\<rparr>))
      else
        (if socket_files s addr \<noteq> None \<or> files s addr \<noteq> None then (Inl EADDRINUSE, s)
         else (Inr 0, s\<lparr>socket_files := (socket_files s)(addr \<mapsto> t)\<rparr>)))"
| "os_step p (Connect t addr) s =
     (case (if is_abstract addr then abstract_bound s addr else socket_files s addr) of
        Some u \<Rightarrow>
          if u \<in> listening s then (Inr 0, s\<lparr>peer := (peer s)(t \<mapsto> u)\<rparr>)
          else (Inl ECONNREFUSED, s)
      | None \<Rightarrow>
          if is_abstract addr \<or> files s addr \<noteq> None then (Inl ECONNREFUSED, s)
          else (Inl ENOENT, s))"
| "os_step p (Listen t) s = (Inr 0, s\<lparr>listening := insert t (listening s)\<rparr>)"
| "os_step p (Set_inheritable t) s = (Inr 0, s)"
| "os_step p (Open_lockfile path) s =
     (if socket_files s path \<noteq> None then (Inl ENXIO, s)
      else
        (Inr (next_id s),
         s\<lparr>files := (files s)(path \<mapsto> []),
           fds := (fds s)((p, next_id s) \<mapsto> path),
           next_id := Suc (next_id s)\<rparr>))"
| "os_step p (Lockf d) s =
     (case fds s (p, d) of
        None \<Rightarrow> (Inl EBADF, s)
      | Some path \<Rightarrow>
          (case locks s path of
             None \<Rightarrow> (Inr 0, s\<lparr>locks := (locks s)(path \<mapsto> p)\<rparr>)
           | Some q \<Rightarrow> if q = p then (Inr 0, s) else (Inl (busy_errno s), s)))"
| "os_step p (Unlink path) s =
     (if socket_files s path \<noteq> None \<or> files s path \<noteq> None then
        (Inr 0, s\<lparr>socket_files := (socket_files s)(path := None),
                  files := (files s)(path := None)\<rparr>)
      else (Inl ENOENT, s))"
| "os_step p (Access loc) s = (Inr (if accessible s loc then 1 else 0), s)"
| "os_step p (Set_socket_attr t) s = (Inr 0, s\<lparr>socket_attr := (socket_attr s)(p \<mapsto> t)\<rparr>)"
| "os_step p (Atexit_register t path) s =
     (Inr 0, s\<lparr>atexit := (atexit s)(p := atexit s p @ [(t, path)])\<rparr>)"

text \<open>A whole call of process \<open>p\<close>, with no other process acting in between.\<close>

primrec run :: "'a prog \<Rightarrow> pid \<Rightarrow> system \<Rightarrow> (errno + 'a) \<times> system" where
  "run (Return x) p s = (Inr x, s)"
| "run (Raise err) p s = (Inl err, s)"
| "run (Sys c k) p s = (case os_step p c s of (r, s') \<Rightarrow> run (k r) p s')"

subsection \<open>Processes running side by side\<close>

text \<open>
  The processes of a configuration each hold the rest of their program. A schedule is
  the list of the processes to act, in order; at its turn a process performs its next
  action, atomically, and a process that has returned or raised does nothing. Every
  interleaving of the processes' actions is the run of some schedule. The configuration
  records each action with its answer.
\<close>

type_synonym event = "pid \<times> action \<times> reply"

type_synonym config = "(pid \<rightharpoonup> bool prog) \<times> system \<times> event list"

definition turn :: "pid \<Rightarrow> config \<Rightarrow> config" where
  "turn p cfg =
     (case cfg of (procs, s, evs) \<Rightarrow>
        (case procs p of
           Some (Sys c k) \<Rightarrow>
             (case os_step p c s of
                (r, s') \<Rightarrow> (procs(p \<mapsto> k r), s', evs @ [(p, c, r)]))
         | _ \<Rightarrow> cfg))"

definition schedule :: "pid list \<Rightarrow> config \<Rightarrow> config" where
  "schedule ps cfg = foldl (\<lambda>cfg p. turn p cfg) cfg ps"

text \<open>
  The start of a race between the processes \<open>a\<close> and \<open>b\<close>: both are about to call
  \<open>single_instance(group_id)\<close>.
\<close>

definition race :: "env \<Rightarrow> string option \<Rightarrow> pid \<Rightarrow> pid \<Rightarrow> system \<Rightarrow> config" where
  "race e group_id a b s =
     ([a \<mapsto> single_instance e group_id, b \<mapsto> single_instance e group_id], s, [])"

text \<open>How the call of process \<open>p\<close> has ended in a configuration, if it has.\<close>

definition result :: "config \<Rightarrow> pid \<Rightarrow> bool outcome" where
  "result cfg p =
     (case fst cfg p of
        Some (Return x) \<Rightarrow> Returned x
      | Some (Raise err) \<Rightarrow> Raised err
      | _ \<Rightarrow> Blocked)"



subsection \<open>Following a program along a trace\<close>

text \<open>
  \<open>follow p tr\<close> is the rest of \<open>p\<close> after it has performed the actions of \<open>tr\<close> and got
  the answers of \<open>tr\<close>, if \<open>p\<close> can do so.
\<close>

primrec follow :: "'a prog \<Rightarrow> (action \<times> reply) list \<Rightarrow> 'a prog option" where
  "follow (Return x) tr = (if tr = [] then Some (Return x) else None)"
| "follow (Raise err) tr = (if tr = [] then Some (Raise err) else None)"
| "follow (Sys c k) tr =
     (case tr of
        [] \<Rightarrow> Some (Sys c k)
      | cr # tr' \<Rightarrow> if fst cr = c then follow (k (snd cr)) tr' else None)"




subsection \<open>What the events of a run tell\<close>







section \<open>Concrete inputs\<close>

text \<open>The inputs at which the theorems below are instantiated.\<close>

definition example_env :: env where
  "example_env =
     \<lparr>appname = ''kitty'', euid = 1000, home = ''/home/u'', tempdir = ''/tmp'',
      is_macos = False, user_cache_dir = ''/home/u/Library/Caches''\<rparr>"

definition fresh_interp :: interp where
  "fresh_interp =
     \<lparr>ans_attr = None, heap = Map.empty, next_ref = 0, logged = [], spawned = [], kills = 0\<rparr>"

definition example_world :: "launch \<Rightarrow> (int option \<times> bytes option) list \<Rightarrow> world" where
  "example_world l ps =
     \<lparr>shell_argv = [''/bin/sh''], openpty_error = None, popen = l, polls = ps,
      drain = [Some [], None], decode = (\<lambda>b. b)\<rparr>"

definition example_output :: string where
  "example_output =
     ''FOO=bar'' @ [CHR 0x0A] @ ''BAZ='' @ [CHR 0x0A] @ ''MALFORMED'' @ [CHR 0x0A] @ ''QUX=1''"



text \<open>
  A system with nothing bound, locked or open, for a given answer of the kernel on
  abstract addresses and a given \<open>os.access\<close>.
\<close>

definition example_system :: "bool \<Rightarrow> (string \<Rightarrow> bool) \<Rightarrow> system" where
  "example_system ab acc =
     \<lparr>abstract_ok = ab, busy_errno = EAGAIN, accessible = acc,
      abstract_bound = Map.empty, socket_files = Map.empty, files = Map.empty,
      locks = Map.empty, fds = Map.empty, sock_owner = Map.empty, listening = {},
      peer = Map.empty, next_id = 3, socket_attr = Map.empty, atexit = (\<lambda>_. [])\<rparr>"

text \<open>
  No abstract namespace; process 7 holds the lock of the lockfile in \<open>/tmp\<close>, which has
  content, and listens on socket 1 at the socket path.
\<close>

definition locked_system :: system where
  "locked_system =
     (example_system False (\<lambda>_. True))
       \<lparr>files := [''/tmp/kitty-ipc-1000.lock'' \<mapsto> ''held''],
        locks := [''/tmp/kitty-ipc-1000.lock'' \<mapsto> 7],
        socket_files := [''/tmp/kitty-ipc-1000.sock'' \<mapsto> 1],
        sock_owner := [1 \<mapsto> 7],
        listening := {1}\<rparr>"

text \<open>No abstract namespace; a socket file left behind at the socket path, no lock held.\<close>

definition stale_system :: system where
  "stale_system =
     (example_system False (\<lambda>_. True))\<lparr>socket_files := [''/tmp/kitty-ipc-1000.sock'' \<mapsto> 1]\<rparr>"

text \<open>The number a string of decimal digits denotes.\<close>

definition decimal_value :: "string \<Rightarrow> nat" where
  "decimal_value ds = foldl (\<lambda>n c. 10 * n + (of_char c - 48)) 0 ds"

section \<open>Names and paths: theorems\<close>

lemma str_nat_example: "str_nat 1000 = ''1000''"
  by (simp add: str_nat.simps digit_char_def)

lemma digit_char_value:
  assumes "d < 10"
  shows "of_char (digit_char d) = (48 + d :: nat)"
proof -
  from assms have "d = 0 \<or> d = 1 \<or> d = 2 \<or> d = 3 \<or> d = 4 \<or> d = 5 \<or> d = 6 \<or> d = 7
      \<or> d = 8 \<or> d = 9"
    by arith
  then show ?thesis
    by (auto simp: digit_char_def)
qed

text \<open>\<open>str_nat\<close> writes a number in decimal.\<close>

lemma str_nat_decimal: "decimal_value (str_nat n) = n"
proof (induction n rule: str_nat.induct)
  case (1 n)
  show ?case
  proof (cases "n < 10")
    case True
    then show ?thesis
      by (subst str_nat.simps) (simp add: decimal_value_def digit_char_value)
  next
    case False
    with "1.IH" have "decimal_value (str_nat (n div 10)) = n div 10" by simp
    with False show ?thesis
      by (subst str_nat.simps) (simp add: decimal_value_def digit_char_value)
  qed
qed

lemma rpartition_head_append:
  "sep \<notin> set ys \<Longrightarrow> rpartition_head sep (xs @ sep # ys) = xs"
  by (induction xs) auto

lemma rpartition_head_lock: "rpartition_head CHR ''.'' (xs @ ''.lock'') = xs"
  using rpartition_head_append [of "CHR ''.''" "''lock''" xs] by simp

text \<open>
  Joining a directory with \<open>b.lock\<close> and with \<open>b.sock\<close> gives the same path up to the
  extension, whichever branch of \<open>path_join\<close> applies.
\<close>

lemma path_join_prefix:
  "\<exists>pre. path_join loc (b @ ''.lock'') = pre @ ''.lock''
       \<and> path_join loc (b @ ''.sock'') = pre @ ''.sock''"
proof (cases "b \<noteq> [] \<and> hd b = CHR ''/''")
  case True
  then have "path_join loc (b @ ''.lock'') = b @ ''.lock''"
    and "path_join loc (b @ ''.sock'') = b @ ''.sock''"
    by (simp_all add: path_join_def)
  then show ?thesis by blast
next
  case False
  then have rel: "\<And>ext. \<not> ((b @ CHR ''.'' # ext) \<noteq> [] \<and> hd (b @ CHR ''.'' # ext) = CHR ''/'')"
    by (cases b) auto
  show ?thesis
  proof (cases "loc = [] \<or> last loc = CHR ''/''")
    case True
    with rel have "path_join loc (b @ ''.lock'') = (loc @ b) @ ''.lock''"
      and "path_join loc (b @ ''.sock'') = (loc @ b) @ ''.sock''"
      by (simp_all add: path_join_def)
    then show ?thesis by blast
  next
    case False
    with rel have "path_join loc (b @ ''.lock'') = (loc @ ''/'' @ b) @ ''.lock''"
      and "path_join loc (b @ ''.sock'') = (loc @ ''/'' @ b) @ ''.sock''"
      by (simp_all add: path_join_def)
    then show ?thesis by blast
  qed
qed

lemma socket_path_of_lock:
  "socket_path_of (path_join loc (b @ ''.lock'')) = path_join loc (b @ ''.sock'')"
proof -
  obtain pre where "path_join loc (b @ ''.lock'') = pre @ ''.lock''"
    and "path_join loc (b @ ''.sock'') = pre @ ''.sock''"
    using path_join_prefix by blast
  then show ?thesis
    by (simp only: socket_path_of_def rpartition_head_lock)
qed

text \<open>
  Claim C8, as amended. The coordination name is the application name, \<open>-ipc-\<close> and the
  effective user id in decimal, followed by \<open>-<group_id>\<close> exactly when a non-empty group
  id is given; the abstract address is a NUL byte followed by the name.
\<close>

theorem ipc_name_and_address:
  "ipc_name e group_id =
     appname e @ ''-ipc-'' @ str_nat (euid e) @
       (case group_id of None \<Rightarrow> [] | Some g \<Rightarrow> if g = [] then [] else ''-'' @ g)
   \<and> decimal_value (str_nat (euid e)) = euid e
   \<and> abstract_address (ipc_name e group_id) = CHR 0x00 # ipc_name e group_id"
  by (simp add: ipc_name_def abstract_address_def str_nat_decimal split: option.splits)

text \<open>
  Claim C8 as stated fails when the group id given is the empty string: \<open>if group_id\<close>
  is false for it, so no \<open>-\<close> is appended.
\<close>

theorem ipc_name_empty_group_id:
  "ipc_name example_env (Some []) = ''kitty-ipc-1000''
   \<and> ipc_name example_env (Some []) \<noteq>
       appname example_env @ ''-ipc-'' @ str_nat (euid example_env) @ ''-'' @ []"
  by (simp add: ipc_name_def example_env_def str_nat.simps digit_char_def)

text \<open>
  Claim C9. The lockfile path is the directory joined with the name and \<open>.lock\<close>, the file
  name starting with a dot exactly when the directory is the home directory; the socket
  path is the same file name in the same directory with \<open>.sock\<close> in place of \<open>.lock\<close>.
\<close>

theorem lockfile_and_socket_path:
  "unix_socket_path e name ''.lock'' loc =
     path_join loc ((if loc = home e then ''.'' else []) @ name @ ''.lock'')
   \<and> socket_path_of (unix_socket_path e name ''.lock'' loc) =
     path_join loc ((if loc = home e then ''.'' else []) @ name @ ''.sock'')"
  using socket_path_of_lock [of loc "(if loc = home e then ''.'' else []) @ name"]
  by (simp add: unix_socket_path_def)

section \<open>Reading the shell's environment: theorems\<close>










lemma read_cached: "ans_attr st = Some r \<Longrightarrow> read_shell_environment w st = (Inr r, st)"
  by (simp add: read_shell_environment_def)

lemma read_stores:
  "fst (read_shell_environment w st) = Inr r \<Longrightarrow>
   ans_attr (snd (read_shell_environment w st)) = Some r"
  by (auto simp: read_shell_environment_def Let_def log_error_def
      split: option.splits launch.splits prod.splits if_splits)

text \<open>
  Claim C4. A call that returns a mapping object leaves it in the attribute
  \<open>read_shell_environment.ans\<close>, and a later call, whatever the shell would do by then,
  returns the same object and changes nothing: no child is started, nothing is logged,
  no dict is touched.
\<close>

theorem read_shell_environment_memoized:
  "fst (read_shell_environment w1 st) = Inr r \<Longrightarrow>
     ans_attr (snd (read_shell_environment w1 st)) = Some r
   \<and> read_shell_environment w2 (snd (read_shell_environment w1 st))
       = (Inr r, snd (read_shell_environment w1 st))"
  using read_stores [of w1 st r] read_cached [of "snd (read_shell_environment w1 st)" r w2]
  by simp

text \<open>
  The first call fails to find the shell and caches the empty mapping; the second call,
  for which the shell would run and print variables, returns that empty mapping and
  starts nothing.
\<close>

theorem read_shell_environment_memoized_witness:
  "fst (read_shell_environment (example_world FileNotFound []) fresh_interp) = Inr 0
   \<and> heap (snd (read_shell_environment (example_world FileNotFound []) fresh_interp)) 0
       = Some Map.empty
   \<and> read_shell_environment (example_world Started [(Some 0, Some example_output)])
        (snd (read_shell_environment (example_world FileNotFound []) fresh_interp))
       = (Inr 0, snd (read_shell_environment (example_world FileNotFound []) fresh_interp))
   \<and> spawned (snd (read_shell_environment (example_world FileNotFound []) fresh_interp)) = []"
proof -
  have 1: "fst (read_shell_environment (example_world FileNotFound []) fresh_interp) = Inr 0"
    by (simp add: read_shell_environment_def example_world_def fresh_interp_def)
  have 2: "heap (snd (read_shell_environment (example_world FileNotFound []) fresh_interp)) 0
             = Some Map.empty"
    "spawned (snd (read_shell_environment (example_world FileNotFound []) fresh_interp)) = []"
    by (simp_all add: read_shell_environment_def example_world_def fresh_interp_def
        log_error_def)
  show ?thesis
    using read_shell_environment_memoized
      [OF 1, of "example_world Started [(Some 0, Some example_output)]"] 1 2
    by simp
qed

text \<open>
  Claim C5. In a first call whose pseudo-terminal opens: when the shell is not found,
  or the child exits with a non-zero status, or the deadline passes with the child
  still running, the call returns (it does not raise) the new mapping object, the
  mapping is empty, and exactly one diagnostic has been logged; on the timeout the
  child has been killed.
\<close>

theorem read_shell_environment_failures:
  assumes "ans_attr st = None" and "openpty_error w = None"
    and "popen w = FileNotFound \<or> popen w = Started \<and> fst (wait_loop (polls w) []) \<noteq> Some 0"
  shows "\<exists>st'. read_shell_environment w st = (Inr (next_ref st), st')
           \<and> heap st' (next_ref st) = Some Map.empty
           \<and> logged st' = logged st @
               [if popen w = FileNotFound then ''Could not find shell to read environment''
                else if fst (wait_loop (polls w) []) = None
                  then ''Timed out waiting for shell to quit while reading shell environment''
                else ''Failed to run shell to read its environment'']
           \<and> kills st' = (if popen w = Started \<and> fst (wait_loop (polls w) []) = None
                          then Suc (kills st) else kills st)"
  using assms
  by (auto simp: read_shell_environment_def Let_def log_error_def
      split: option.splits launch.splits prod.splits if_splits)

text \<open>The three failures: shell not found, exit status 1, and a child that never exits.\<close>

theorem read_shell_environment_failures_witness:
  "(\<exists>st'. read_shell_environment (example_world FileNotFound []) fresh_interp = (Inr 0, st')
        \<and> heap st' 0 = Some Map.empty
        \<and> logged st' = [''Could not find shell to read environment'']
        \<and> kills st' = 0)
   \<and> (\<exists>st'. read_shell_environment (example_world Started [(None, Some ''x''), (Some 1, None)])
          fresh_interp = (Inr 0, st')
        \<and> heap st' 0 = Some Map.empty
        \<and> logged st' = [''Failed to run shell to read its environment'']
        \<and> kills st' = 0)
   \<and> (\<exists>st'. read_shell_environment (example_world Started [(None, None), (None, Some ''A=1'')])
          fresh_interp = (Inr 0, st')
        \<and> heap st' 0 = Some Map.empty
        \<and> logged st' =
            [''Timed out waiting for shell to quit while reading shell environment'']
        \<and> kills st' = 1)"
  using read_shell_environment_failures [of fresh_interp "example_world FileNotFound []"]
    read_shell_environment_failures
      [of fresh_interp "example_world Started [(None, Some ''x''), (Some 1, None)]"]
    read_shell_environment_failures
      [of fresh_interp "example_world Started [(None, None), (None, Some ''A=1'')]"]
  by (simp add: example_world_def fresh_interp_def)

section \<open>Single-instance coordination: theorems\<close>

subsection \<open>Evaluation rules\<close>

lemma exec_perform [simp]:
  "exec (perform c k) [] = ([c], Blocked)"
  "exec (perform c k) (Inl err # rs) = ([c], Raised err)"
  "exec (perform c k) (Inr v # rs) = (case exec (k v) rs of (cs, out) \<Rightarrow> (c # cs, out))"
  by (simp_all add: perform_def)

lemma exec_attempt [simp]:
  "exec (attempt c h k) [] = ([c], Blocked)"
  "exec (attempt c h k) (Inl err # rs) = (case exec (h err) rs of (cs, out) \<Rightarrow> (c # cs, out))"
  "exec (attempt c h k) (Inr v # rs) = (case exec (k v) rs of (cs, out) \<Rightarrow> (c # cs, out))"
  by (simp_all add: attempt_def)

lemma run_perform [simp]:
  "run (perform c k) p s =
     (case os_step p c s of (Inl err, s') \<Rightarrow> (Inl err, s') | (Inr v, s') \<Rightarrow> run (k v) p s')"
  by (simp add: perform_def split: prod.splits sum.splits)

lemma run_attempt [simp]:
  "run (attempt c h k) p s =
     (case os_step p c s of (Inl err, s') \<Rightarrow> run (h err) p s' | (Inr v, s') \<Rightarrow> run (k v) p s')"
  by (simp add: attempt_def split: prod.splits sum.splits)

lemma exec_loop_none:
  "exec (single_instance_unix_loop e name cs) (map (\<lambda>_. Inr 0) cs) = (map Access cs, Returned False)"
  by (induction cs) auto

lemma run_loop_none:
  "\<forall>loc \<in> set cs. \<not> accessible s loc \<Longrightarrow>
   run (single_instance_unix_loop e name cs) p s = (Inr False, s)"
  by (induction cs) auto

lemma socket_path_differs:
  "socket_path_of (unix_socket_path e name ''.lock'' loc) \<noteq> unix_socket_path e name ''.lock'' loc"
proof -
  obtain pre where "path_join loc (((if loc = home e then ''.'' else []) @ name) @ ''.lock'') = pre @ ''.lock''"
    and "path_join loc (((if loc = home e then ''.'' else []) @ name) @ ''.sock'') = pre @ ''.sock''"
    using path_join_prefix by blast
  then show ?thesis
    using socket_path_of_lock [of loc "(if loc = home e then ''.'' else []) @ name"]
    by (simp add: unix_socket_path_def)
qed

lemma example_lock_path:
  "''/tmp/kitty-ipc-1000.lock'' = unix_socket_path example_env ''kitty-ipc-1000'' ''.lock'' ''/tmp''"
  by (simp add: unix_socket_path_def example_env_def path_join_def)

lemma example_socket_path:
  "''/tmp/kitty-ipc-1000.sock'' = socket_path_of ''/tmp/kitty-ipc-1000.lock''"
  by (simp add: socket_path_of_def)

subsection \<open>The outcomes of the abstract bind\<close>

text \<open>
  Claim C6. After creating the socket, \<open>__call__\<close> binds it to the abstract address, and
  \<^item> when the bind succeeds it listens, keeps the socket in the attribute, registers the
    close at exit and returns \<open>True\<close> (Server), closing nothing;
  \<^item> when the bind raises \<open>EADDRINUSE\<close> it connects the same socket to the same address,
    keeps it and returns \<open>False\<close> (Client);
  \<^item> when the bind raises \<open>ENOENT\<close> it goes on as \<open>single_instance_unix\<close> does;
  \<^item> any other errno of the bind leaves the function as an exception, with no further
    action.
\<close>

theorem abstract_bind_outcomes:
  "exec (single_instance e g) [Inr s, Inr v1, Inr v2, Inr v3, Inr v4, Inr v5] =
      ([Socket, Bind s (abstract_address (ipc_name e g)), Listen s, Set_socket_attr s,
        Set_inheritable s, Atexit_register s None], Returned True)
   \<and> exec (single_instance e g) [Inr s, Inl EADDRINUSE, Inr v1, Inr v2] =
      ([Socket, Bind s (abstract_address (ipc_name e g)),
        Connect s (abstract_address (ipc_name e g)), Set_socket_attr s], Returned False)
   \<and> exec (single_instance e g) (Inr s # Inl ENOENT # rs) =
      (Socket # Bind s (abstract_address (ipc_name e g))
         # fst (exec (single_instance_unix e (ipc_name e g)) rs),
       snd (exec (single_instance_unix e (ipc_name e g)) rs))
   \<and> (err \<noteq> ENOENT \<and> err \<noteq> EADDRINUSE \<longrightarrow>
        exec (single_instance e g) (Inr s # Inl err # rs) =
          ([Socket, Bind s (abstract_address (ipc_name e g))], Raised err))"
  by (simp add: single_instance_def Let_def case_prod_unfold)

theorem abstract_bind_outcomes_witness:
  "exec (single_instance example_env None) [Inr 3, Inl EACCES] =
     ([Socket, Bind 3 (CHR 0x00 # ''kitty-ipc-1000'')], Raised EACCES)
   \<and> exec (single_instance example_env None) [Inr 3, Inr 0, Inr 0, Inr 0, Inr 0, Inr 0] =
      ([Socket, Bind 3 (CHR 0x00 # ''kitty-ipc-1000''), Listen 3, Set_socket_attr 3,
        Set_inheritable 3, Atexit_register 3 None], Returned True)"
proof -
  have n: "abstract_address (ipc_name example_env None) = CHR 0x00 # ''kitty-ipc-1000''"
    by (simp add: abstract_address_def ipc_name_def example_env_def str_nat.simps digit_char_def)
  show ?thesis
    using abstract_bind_outcomes [of example_env None 3 0 0 0 0 0 "[]" EACCES] n by simp
qed

subsection \<open>No accessible directory\<close>

text \<open>
  Claim C10. When no candidate directory is accessible, \<open>single_instance_unix\<close> performs
  only the \<open>os.access\<close> tests, returns \<open>False\<close> (Client) and leaves the system as it was:
  nothing is opened, locked, bound or connected and the attribute
  \<open>single_instance.socket\<close> is not set. Reached from \<open>__call__\<close> on a system without
  the abstract namespace, the call returns \<open>False\<close> without raising, with the attribute
  and every connection unchanged.
\<close>

theorem no_accessible_directory:
  assumes "\<forall>loc \<in> set (socket_directory_candidates e). \<not> accessible s loc"
  shows "run (single_instance_unix e name) p s = (Inr False, s)
    \<and> exec (single_instance_unix e name) (map (\<lambda>_. Inr 0) (socket_directory_candidates e))
        = (map Access (socket_directory_candidates e), Returned False)
    \<and> (\<not> abstract_ok s \<longrightarrow>
         fst (run (single_instance e g) p s) = Inr False
       \<and> socket_attr (snd (run (single_instance e g) p s)) p = socket_attr s p
       \<and> peer (snd (run (single_instance e g) p s)) = peer s)"
proof -
  let ?s1 = "s\<lparr>sock_owner := (sock_owner s)(next_id s \<mapsto> p), next_id := Suc (next_id s)\<rparr>"
  have "\<forall>loc \<in> set (socket_directory_candidates e). \<not> accessible ?s1 loc"
    using assms by simp
  then have "run (single_instance_unix e (ipc_name e g)) p ?s1 = (Inr False, ?s1)"
    by (simp add: single_instance_unix_def run_loop_none)
  then have "\<not> abstract_ok s \<longrightarrow> run (single_instance e g) p s = (Inr False, ?s1)"
    by (simp add: single_instance_def Let_def abstract_address_def is_abstract_def)
  then show ?thesis
    using assms by (auto simp: single_instance_unix_def run_loop_none exec_loop_none)
qed

theorem no_accessible_directory_witness:
  "run (single_instance_unix example_env ''kitty-ipc-1000'') 8 (example_system False (\<lambda>_. False))
     = (Inr False, example_system False (\<lambda>_. False))
   \<and> exec (single_instance_unix example_env ''kitty-ipc-1000'') [Inr 0, Inr 0]
     = ([Access ''/tmp'', Access ''/home/u''], Returned False)
   \<and> fst (run (single_instance example_env None) 8 (example_system False (\<lambda>_. False))) = Inr False
   \<and> socket_attr (snd (run (single_instance example_env None) 8 (example_system False (\<lambda>_. False)))) 8 = None"
proof -
  have a: "\<forall>loc \<in> set (socket_directory_candidates example_env).
             \<not> accessible (example_system False (\<lambda>_. False)) loc"
    by (simp add: example_system_def)
  have b: "\<not> abstract_ok (example_system False (\<lambda>_. False))"
    "socket_attr (example_system False (\<lambda>_. False)) 8 = None"
    by (simp_all add: example_system_def)
  have c: "socket_directory_candidates example_env = [''/tmp'', ''/home/u'']"
    by (simp add: socket_directory_candidates_def example_env_def)
  show ?thesis
    using no_accessible_directory [OF a, of "''kitty-ipc-1000''" 8 None] b c by simp
qed

subsection \<open>A stale socket file\<close>

text \<open>
  Claim C7. In the loop body for a lockfile, once the lock is taken:
  \<^item> when binding the socket path raises \<open>EADDRINUSE\<close> (or \<open>EEXIST\<close>), the path is
    unlinked and bound again, and the function goes on to listen and returns \<open>True\<close>;
  \<^item> any other errno of that bind leaves the function as an exception, with no unlink
    and no second bind;
  \<^item> on a system where no other process holds the lock and a socket file exists at the
    socket path, the second bind succeeds: the call returns \<open>True\<close>, the path is bound
    to the new socket, which listens, and the caller holds the lock.
\<close>

theorem stale_socket_rebind:
  assumes "path = unix_socket_path e name ''.lock'' loc" and "sp = socket_path_of path"
  shows "(err = EADDRINUSE \<or> err = EEXIST \<longrightarrow>
      exec (single_instance_unix_body path)
        [Inr d, Inr v1, Inr t, Inl err, Inr v2, Inr v3, Inr v4, Inr v5, Inr v6, Inr v7] =
        ([Open_lockfile path, Lockf d, Socket, Bind t sp, Unlink sp, Bind t sp,
          Set_socket_attr t, Atexit_register t (Some sp), Listen t, Set_inheritable t],
         Returned True))
   \<and> (err \<noteq> EADDRINUSE \<and> err \<noteq> EEXIST \<longrightarrow>
      exec (single_instance_unix_body path) (Inr d # Inr v1 # Inr t # Inl err # rs) =
        ([Open_lockfile path, Lockf d, Socket, Bind t sp], Raised err))
   \<and> (locks s path \<in> {None, Some p} \<and> socket_files s path = None
        \<and> socket_files s sp \<noteq> None \<and> \<not> is_abstract sp \<longrightarrow>
      (\<exists>s'. run (single_instance_unix_body path) p s = (Inr True, s')
         \<and> socket_files s' sp = Some (Suc (next_id s))
         \<and> Suc (next_id s) \<in> listening s'
         \<and> locks s' path = Some p
         \<and> socket_attr s' p = Some (Suc (next_id s))
         \<and> atexit s' p = atexit s p @ [(Suc (next_id s), Some sp)]))"
proof -
  have ne: "sp \<noteq> path" using assms socket_path_differs by simp
  have 1: "(err = EADDRINUSE \<or> err = EEXIST \<longrightarrow>
      exec (single_instance_unix_body path)
        [Inr d, Inr v1, Inr t, Inl err, Inr v2, Inr v3, Inr v4, Inr v5, Inr v6, Inr v7] =
        ([Open_lockfile path, Lockf d, Socket, Bind t sp, Unlink sp, Bind t sp,
          Set_socket_attr t, Atexit_register t (Some sp), Listen t, Set_inheritable t],
         Returned True))"
    using assms(2) by (simp add: single_instance_unix_body_def Let_def unix_server_listen_def)
  have 2: "(err \<noteq> EADDRINUSE \<and> err \<noteq> EEXIST \<longrightarrow>
      exec (single_instance_unix_body path) (Inr d # Inr v1 # Inr t # Inl err # rs) =
        ([Open_lockfile path, Lockf d, Socket, Bind t sp], Raised err))"
    using assms(2) by (simp add: single_instance_unix_body_def Let_def unix_server_listen_def)
  have 3: "(locks s path \<in> {None, Some p} \<and> socket_files s path = None
        \<and> socket_files s sp \<noteq> None \<and> \<not> is_abstract sp \<longrightarrow>
      (\<exists>s'. run (single_instance_unix_body path) p s = (Inr True, s')
         \<and> socket_files s' sp = Some (Suc (next_id s))
         \<and> Suc (next_id s) \<in> listening s'
         \<and> locks s' path = Some p
         \<and> socket_attr s' p = Some (Suc (next_id s))
         \<and> atexit s' p = atexit s p @ [(Suc (next_id s), Some sp)]))"
    using ne assms(2)
    by (auto simp: single_instance_unix_body_def Let_def unix_server_listen_def split: option.splits)
  show ?thesis using 1 2 3 by blast
qed

theorem stale_socket_rebind_witness:
  "exec (single_instance_unix_body ''/tmp/kitty-ipc-1000.lock'')
      [Inr 3, Inr 0, Inr 4, Inl EADDRINUSE, Inr 0, Inr 0, Inr 0, Inr 0, Inr 0, Inr 0] =
      ([Open_lockfile ''/tmp/kitty-ipc-1000.lock'', Lockf 3, Socket,
        Bind 4 ''/tmp/kitty-ipc-1000.sock'', Unlink ''/tmp/kitty-ipc-1000.sock'',
        Bind 4 ''/tmp/kitty-ipc-1000.sock'', Set_socket_attr 4,
        Atexit_register 4 (Some ''/tmp/kitty-ipc-1000.sock''), Listen 4, Set_inheritable 4],
       Returned True)
   \<and> exec (single_instance_unix_body ''/tmp/kitty-ipc-1000.lock'')
      [Inr 3, Inr 0, Inr 4, Inl EACCES] =
      ([Open_lockfile ''/tmp/kitty-ipc-1000.lock'', Lockf 3, Socket,
        Bind 4 ''/tmp/kitty-ipc-1000.sock''], Raised EACCES)
   \<and> (\<exists>s'. run (single_instance_unix_body ''/tmp/kitty-ipc-1000.lock'') 8 stale_system = (Inr True, s')
         \<and> socket_files s' ''/tmp/kitty-ipc-1000.sock'' = Some 4
         \<and> 4 \<in> listening s'
         \<and> locks s' ''/tmp/kitty-ipc-1000.lock'' = Some 8)"
proof -
  have h: "locks stale_system ''/tmp/kitty-ipc-1000.lock'' \<in> {None, Some 8}
      \<and> socket_files stale_system ''/tmp/kitty-ipc-1000.lock'' = None
      \<and> socket_files stale_system ''/tmp/kitty-ipc-1000.sock'' \<noteq> None
      \<and> \<not> is_abstract ''/tmp/kitty-ipc-1000.sock''"
    by (simp add: stale_system_def example_system_def is_abstract_def)
  have n: "Suc (next_id stale_system) = 4"
    by (simp add: stale_system_def example_system_def)
  show ?thesis
    using stale_socket_rebind [OF example_lock_path example_socket_path,
        where err = EADDRINUSE and d = 3 and t = 4 and s = stale_system and p = 8
          and ?v1.0 = 0 and ?v2.0 = 0 and ?v3.0 = 0 and ?v4.0 = 0 and ?v5.0 = 0 and ?v6.0 = 0 and ?v7.0 = 0]
      stale_socket_rebind [OF example_lock_path example_socket_path,
        where err = EACCES and d = 3 and t = 4 and ?v1.0 = 0 and rs = "[]"]
      h n
    by auto
qed

subsection \<open>The lock held by another process\<close>

text \<open>
  Claim C2, as amended. In the loop body for a lockfile, when \<open>lockf\<close> raises \<open>EAGAIN\<close>
  or \<open>EACCES\<close> the function creates a socket, connects it to the sibling \<open>.sock\<close> path,
  keeps it in the attribute and returns \<open>False\<close> (Client). On a system where another
  process holds the lock and a socket listens at the socket path, the call returns
  \<open>False\<close> connected to that socket; it takes no lock and unlinks nothing, but it has
  opened the lockfile with \<open>O_CREAT | O_TRUNC\<close> before trying the lock, so the lockfile
  exists and is empty afterwards.
\<close>

theorem client_under_held_lock:
  assumes "path = unix_socket_path e name ''.lock'' loc" and "sp = socket_path_of path"
  shows "(err = EAGAIN \<or> err = EACCES \<longrightarrow>
      exec (single_instance_unix_body path) [Inr d, Inl err, Inr t, Inr v1, Inr v2] =
        ([Open_lockfile path, Lockf d, Socket, Connect t sp, Set_socket_attr t], Returned False))
   \<and> (locks s path = Some q \<and> q \<noteq> p \<and> (busy_errno s = EAGAIN \<or> busy_errno s = EACCES)
        \<and> socket_files s path = None
        \<and> socket_files s sp = Some u \<and> u \<in> listening s \<and> \<not> is_abstract sp \<longrightarrow>
      (\<exists>s'. run (single_instance_unix_body path) p s = (Inr False, s')
         \<and> peer s' (Suc (next_id s)) = Some u
         \<and> socket_attr s' p = Some (Suc (next_id s))
         \<and> locks s' = locks s
         \<and> socket_files s' = socket_files s
         \<and> listening s' = listening s
         \<and> files s' = (files s)(path \<mapsto> [])))"
proof -
  have ne: "sp \<noteq> path" using assms socket_path_differs by simp
  have 1: "(err = EAGAIN \<or> err = EACCES \<longrightarrow>
      exec (single_instance_unix_body path) [Inr d, Inl err, Inr t, Inr v1, Inr v2] =
        ([Open_lockfile path, Lockf d, Socket, Connect t sp, Set_socket_attr t], Returned False))"
    using assms(2) by (simp add: single_instance_unix_body_def Let_def)
  have 2: "(locks s path = Some q \<and> q \<noteq> p \<and> (busy_errno s = EAGAIN \<or> busy_errno s = EACCES)
        \<and> socket_files s path = None
        \<and> socket_files s sp = Some u \<and> u \<in> listening s \<and> \<not> is_abstract sp \<longrightarrow>
      (\<exists>s'. run (single_instance_unix_body path) p s = (Inr False, s')
         \<and> peer s' (Suc (next_id s)) = Some u
         \<and> socket_attr s' p = Some (Suc (next_id s))
         \<and> locks s' = locks s
         \<and> socket_files s' = socket_files s
         \<and> listening s' = listening s
         \<and> files s' = (files s)(path \<mapsto> [])))"
    using ne assms(2)
    by (auto simp: single_instance_unix_body_def Let_def split: option.splits)
  show ?thesis using 1 2 by blast
qed

theorem client_under_held_lock_witness:
  "exec (single_instance_unix_body ''/tmp/kitty-ipc-1000.lock'')
      [Inr 3, Inl EAGAIN, Inr 4, Inr 0, Inr 0] =
      ([Open_lockfile ''/tmp/kitty-ipc-1000.lock'', Lockf 3, Socket,
        Connect 4 ''/tmp/kitty-ipc-1000.sock'', Set_socket_attr 4], Returned False)
   \<and> (\<exists>s'. run (single_instance_unix_body ''/tmp/kitty-ipc-1000.lock'') 8 locked_system = (Inr False, s')
         \<and> peer s' 4 = Some 1
         \<and> socket_attr s' 8 = Some 4
         \<and> locks s' = locks locked_system
         \<and> socket_files s' = socket_files locked_system
         \<and> files s' ''/tmp/kitty-ipc-1000.lock'' = Some [])"
proof -
  have h: "locks locked_system ''/tmp/kitty-ipc-1000.lock'' = Some 7 \<and> 7 \<noteq> (8::nat)
      \<and> (busy_errno locked_system = EAGAIN \<or> busy_errno locked_system = EACCES)
      \<and> socket_files locked_system ''/tmp/kitty-ipc-1000.lock'' = None
      \<and> socket_files locked_system ''/tmp/kitty-ipc-1000.sock'' = Some 1
      \<and> 1 \<in> listening locked_system
      \<and> \<not> is_abstract ''/tmp/kitty-ipc-1000.sock''"
    by (simp add: locked_system_def example_system_def is_abstract_def)
  have n: "Suc (next_id locked_system) = 4"
    by (simp add: locked_system_def example_system_def)
  show ?thesis
    using client_under_held_lock [OF example_lock_path example_socket_path,
        where err = EAGAIN and d = 3 and t = 4 and s = locked_system and p = 8 and q = 7
          and u = 1 and ?v1.0 = 0 and ?v2.0 = 0]
      h n
    by auto
qed

text \<open>
  Claim C2 as stated fails: process 7 holds the lock of a lockfile with content, process
  8 calls \<open>single_instance\<close>, becomes Client, and the lockfile is empty afterwards.
\<close>

theorem client_truncates_lockfile:
  "locks locked_system ''/tmp/kitty-ipc-1000.lock'' = Some 7
   \<and> files locked_system ''/tmp/kitty-ipc-1000.lock'' = Some ''held''
   \<and> fst (run (single_instance example_env None) 8 locked_system) = Inr False
   \<and> files (snd (run (single_instance example_env None) 8 locked_system)) ''/tmp/kitty-ipc-1000.lock'' = Some []"
  by code_simp

section \<open>Two processes racing: theorems\<close>

subsection \<open>The traces of the program\<close>

text \<open>
  What the trace of a call that has returned contains, read off the program: a call
  that returned \<open>True\<close> bound the abstract address or took the lock of the first
  accessible directory's lockfile; a call that returned \<open>False\<close> bound nothing and took
  no lock, and either found the abstract address in use, or was refused the lock, or
  found no accessible directory.
\<close>

lemma follow_Return_iff [simp]:
  "follow (Return x) tr = Some (Return b) \<longleftrightarrow> tr = [] \<and> x = b"
  by simp

lemma follow_Raise_iff [simp]:
  "follow (Raise err) tr \<noteq> Some (Return b)"
  by simp












subsection \<open>The invariant of the system\<close>







lemma follow_Nil [simp]: "follow prog [] = Some prog"
  by (cases prog) simp_all






subsection \<open>The roles after a race\<close>




lemma is_abstract_address [simp]: "is_abstract (abstract_address name)"
  by (simp add: is_abstract_def abstract_address_def)






subsection \<open>One call after the other\<close>







subsection \<open>The roles of two racing processes\<close>






text \<open>
  With the abstract namespace: process 1 binds, process 2 finds the address in use and
  connects before process 1 listens. The connect is refused and the call of process 2
  raises; process 1 goes on to become Server.
\<close>

lemma early_connect_refused:
  "result (schedule [1, 1, 2, 2, 2, 1, 1, 1, 1]
       (race example_env None 1 2 (example_system True (\<lambda>_. True)))) 1 = Returned True
   \<and> result (schedule [1, 1, 2, 2, 2, 1, 1, 1, 1]
       (race example_env None 1 2 (example_system True (\<lambda>_. True)))) 2 = Raised ECONNREFUSED"
  by code_simp

text \<open>
  Without the abstract namespace: both processes get \<open>ENOENT\<close> from the abstract bind and
  find \<open>/tmp\<close> accessible; process 1 takes the lock, binds the socket path and listens,
  process 2 is refused the lock and connects.
\<close>

lemma lockfile_race_example:
  "result (schedule [1, 2, 1, 2, 1, 2, 1, 1, 1, 1, 1, 1, 1, 1, 2, 2, 2, 2, 2]
       (race example_env None 1 2 (example_system False (\<lambda>_. True)))) 1 = Returned True
   \<and> result (schedule [1, 2, 1, 2, 1, 2, 1, 1, 1, 1, 1, 1, 1, 1, 2, 2, 2, 2, 2]
       (race example_env None 1 2 (example_system False (\<lambda>_. True)))) 2 = Returned False"
  by code_simp

end
